theory Spec2Isabelle
  imports Main
begin

section \<open>The login page of the running leaderboard (components/auth/page.tsx)\<close>

text \<open>
  The file holds two variants of the component \<open>AuthPage\<close>. The first keeps one piece
  of React state, the boolean \<open>loading\<close>, and its handler \<open>handleLogin\<close> posts to the
  backend and assigns the returned URL to \<open>window.location.href\<close>. The second is a stub
  whose handler only writes to the console.

  Everything the handler does to the outside world is recorded, in program order, in a log
  of effects kept beside the component state. The asynchronous handler is cut at its two
  \<open>await\<close>s into the pieces that run without interruption.
\<close>

subsection \<open>Values\<close>

text \<open>
  A parsed JSON value, as \<open>response.json()\<close> yields it. The members of an object are kept
  in the order of the body. The handler never inspects a number.
\<close>

datatype json =
    JNull
  | JBool bool
  | JNum int
  | JStr string
  | JArr "json list"
  | JObj "(string \<times> json) list"

text \<open>
  The two arguments of \<open>fetch\<close>: the path, and the options (the key \<open>method\<close> is the
  field \<open>http_method\<close> here). No \<open>body\<close> key is given in the source.
\<close>

record request =
  url :: string
  http_method :: string
  headers :: "(string \<times> string) list"
  body :: "string option"

text \<open>What can be thrown inside the \<open>try\<close> block.\<close>

datatype exn =
    FetchRejected            \<comment> \<open>the promise of \<open>fetch\<close> rejects: the request could not complete\<close>
  | Error string             \<comment> \<open>\<open>new Error(msg)\<close>\<close>
  | JsonRejected             \<comment> \<open>the promise of \<open>response.json()\<close> rejects\<close>
  | TypeError                \<comment> \<open>a property of \<open>null\<close> is read\<close>
  | HrefSyntaxError          \<comment> \<open>the setter of \<open>window.location.href\<close> throws\<close>

text \<open>
  The effects, one constructor per call of the source, and \<open>Navigate\<close> for the navigation
  the browser starts when the assignment to \<open>window.location.href\<close> succeeds. The value
  assigned is recorded as the handler supplies it, \<open>None\<close> standing for \<open>undefined\<close>.
\<close>

datatype effect =
    SetLoading bool
  | Fetch request
  | ReadJson
  | AssignHref "json option"
  | Navigate string
  | ConsoleError string exn
  | Alert string
  | ConsoleLog string

text \<open>How the promise of \<open>fetch\<close> settles, and how the promise of \<open>response.json()\<close> does.\<close>

datatype fetch_result = Rejected | Resolved nat

datatype json_result = BodyRejected | Parsed json

text \<open>
  How the assignment to \<open>window.location.href\<close> settles. The browser turns the assigned
  value into a string and parses it as a URL against the URL of the document. When the
  string does not parse (as \<open>http://\<close> does not) the setter throws; otherwise the
  browser starts navigating to the URL the string parsed to, which is the string itself
  when that is an absolute URL in its serialised form.
\<close>

datatype href_result = HrefThrows | HrefNavigates string

text \<open>A handler invocation suspended at an \<open>await\<close>.\<close>

datatype stage = AwaitFetch | AwaitJson

record page =
  loading :: bool
  log :: "effect list"
  pending :: "stage list"

text \<open>\<open>useState(false)\<close>, nothing logged, no invocation under way.\<close>

definition AuthPage_init :: page where
  "AuthPage_init = \<lparr>loading = False, log = [], pending = []\<rparr>"

subsection \<open>The view\<close>

record button =
  label :: string
  disabled :: bool

record view =
  title :: string
  subtitle :: string
  control :: button

definition render :: "page \<Rightarrow> view" where
  "render s =
     \<lparr>title = ''Welcome to T-Pot Run Club'',
      subtitle = ''Sign in with X to access your running leaderboard'',
      control = \<lparr>label = (if loading s then ''Connecting...'' else ''Login with X''),
                 disabled = loading s\<rparr>\<rparr>"

subsection \<open>The handler\<close>

definition setLoading :: "bool \<Rightarrow> page \<Rightarrow> page" where
  "setLoading b s = s\<lparr>loading := b, log := log s @ [SetLoading b]\<rparr>"

definition emit :: "effect \<Rightarrow> page \<Rightarrow> page" where
  "emit e s = s\<lparr>log := log s @ [e]\<rparr>"

definition login_request :: request where
  "login_request =
     \<lparr>url = ''/api/v1/auth/x/login'',
      http_method = ''POST'',
      headers = [(''Content-Type'', ''application/json'')],
      body = None\<rparr>"

text \<open>\<open>response.ok\<close>: the status is in the range 200 to 299.\<close>

definition ok :: "nat \<Rightarrow> bool" where
  "ok status = (200 \<le> status \<and> status \<le> 299)"

text \<open>
  \<open>data.auth_url\<close>. Reading a property of \<open>null\<close> throws; an object gives its member
  (the last one of that name, as the parser keeps it) or \<open>undefined\<close>; a boolean, number,
  string or array has no such property.
\<close>

fun auth_url :: "json \<Rightarrow> exn + json option" where
  "auth_url JNull = Inl TypeError"
| "auth_url (JObj members) = Inr (map_of (rev members) ''auth_url'')"
| "auth_url _ = Inr None"

text \<open>Lines 11 to 18: up to the first \<open>await\<close>.\<close>

definition handleLogin_start :: "page \<Rightarrow> page" where
  "handleLogin_start s = emit (Fetch login_request) (setLoading True s)"

text \<open>Lines 29 to 34: the \<open>catch\<close> block followed by the \<open>finally\<close> block.\<close>

definition catch_finally :: "exn \<Rightarrow> page \<Rightarrow> page" where
  "catch_finally e s =
     setLoading False
       (emit (Alert ''Failed to start X login. Please try again.'')
         (emit (ConsoleError ''X login error:'' e) s))"

text \<open>
  Lines 20 to 24, run when the promise of \<open>fetch\<close> settles. \<open>Inl\<close>: the handler has
  returned; \<open>Inr\<close>: it is suspended at \<open>await response.json()\<close>.
\<close>

definition after_fetch :: "fetch_result \<Rightarrow> page \<Rightarrow> page + page" where
  "after_fetch r s =
     (case r of
        Rejected \<Rightarrow> Inl (catch_finally FetchRejected s)
      | Resolved status \<Rightarrow>
          if \<not> ok status then Inl (catch_finally (Error ''Failed to initiate X login'') s)
          else Inr (emit ReadJson s))"

text \<open>
  Lines 24 to 34, run when the promise of \<open>response.json()\<close> settles. The assignment on
  line 27 is inside the \<open>try\<close>: when the setter throws, the \<open>catch\<close> block runs.
\<close>

definition after_json :: "json_result \<Rightarrow> href_result \<Rightarrow> page \<Rightarrow> page" where
  "after_json j h s =
     (case j of
        BodyRejected \<Rightarrow> catch_finally JsonRejected s
      | Parsed data \<Rightarrow>
          (case auth_url data of
             Inl e \<Rightarrow> catch_finally e s
           | Inr v \<Rightarrow>
               (case h of
                  HrefThrows \<Rightarrow> catch_finally HrefSyntaxError (emit (AssignHref v) s)
                | HrefNavigates target \<Rightarrow>
                    setLoading False (emit (Navigate target) (emit (AssignHref v) s)))))"

text \<open>
  One whole invocation with nothing running in between: \<open>r\<close> is how the request settles,
  \<open>j\<close> how the body does and \<open>h\<close> how the assignment does (each consulted only when the
  handler gets that far).
\<close>

definition handleLogin :: "fetch_result \<Rightarrow> json_result \<Rightarrow> href_result \<Rightarrow> page \<Rightarrow> page" where
  "handleLogin r j h s =
     (case after_fetch r (handleLogin_start s) of
        Inl s' \<Rightarrow> s'
      | Inr s' \<Rightarrow> after_json j h s')"

text \<open>What an invocation added to the log, read off by kind.\<close>

definition navigations :: "effect list \<Rightarrow> string list" where
  "navigations es = concat (map (\<lambda>e. case e of Navigate target \<Rightarrow> [target] | _ \<Rightarrow> []) es)"

definition assignments :: "effect list \<Rightarrow> json option list" where
  "assignments es = concat (map (\<lambda>e. case e of AssignHref v \<Rightarrow> [v] | _ \<Rightarrow> []) es)"

definition notifications :: "effect list \<Rightarrow> string list" where
  "notifications es = concat (map (\<lambda>e. case e of Alert m \<Rightarrow> [m] | _ \<Rightarrow> []) es)"

definition requests :: "effect list \<Rightarrow> request list" where
  "requests es = concat (map (\<lambda>e. case e of Fetch q \<Rightarrow> [q] | _ \<Rightarrow> []) es)"

subsection \<open>The stub variant\<close>

text \<open>The stub has no state; its handler appends one line to the console.\<close>

definition handleLogin_stub :: "effect list \<Rightarrow> effect list" where
  "handleLogin_stub lg = lg @ [ConsoleLog ''Login with X clicked'']"

text \<open>No \<open>disabled\<close> property is passed to the button, so it is not disabled.\<close>

definition render_stub :: view where
  "render_stub =
     \<lparr>title = ''Welcome'',
      subtitle = ''Sign in to continue'',
      control = \<lparr>label = ''Login with X'', disabled = False\<rparr>\<rparr>"

subsection \<open>Activation through the control\<close>

text \<open>
  Modelled from the spec: the \<open>Button\<close> component (\<open>@/components/ui/button\<close>) is not among
  the sources. The spec says that the control is disabled (non-activatable) while Pending:
  a disabled control ignores an activation, an enabled one calls its \<open>onClick\<close>.
\<close>

definition Button_click :: "button \<Rightarrow> ('s \<Rightarrow> 's) \<Rightarrow> 's \<Rightarrow> 's" where
  "Button_click b onClick s = (if disabled b then s else onClick s)"

text \<open>
  The events of the page: the user activates the control, or the promise awaited by the
  \<open>i\<close>-th suspended invocation settles (the settling of the body comes with the way the
  assignment that follows it goes). The view is recomputed from the state before the next
  event is handled. An event that names no invocation at the right \<open>await\<close> cannot
  happen and changes nothing.
\<close>

datatype event =
    Click
  | FetchSettled nat fetch_result
  | JsonSettled nat json_result href_result

definition remove_nth :: "nat \<Rightarrow> 'a list \<Rightarrow> 'a list" where
  "remove_nth i xs = take i xs @ drop (Suc i) xs"

definition suspend :: "stage \<Rightarrow> page \<Rightarrow> page" where
  "suspend t s = s\<lparr>pending := pending s @ [t]\<rparr>"

fun step :: "event \<Rightarrow> page \<Rightarrow> page" where
  "step Click s =
     Button_click (control (render s)) (\<lambda>s. suspend AwaitFetch (handleLogin_start s)) s"
| "step (FetchSettled i r) s =
     (if i < length (pending s) \<and> pending s ! i = AwaitFetch then
        (case after_fetch r s of
           Inl s' \<Rightarrow> s'\<lparr>pending := remove_nth i (pending s')\<rparr>
         | Inr s' \<Rightarrow> s'\<lparr>pending := (pending s')[i := AwaitJson]\<rparr>)
      else s)"
| "step (JsonSettled i j h) s =
     (if i < length (pending s) \<and> pending s ! i = AwaitJson then
        (after_json j h s)\<lparr>pending := remove_nth i (pending s)\<rparr>
      else s)"

definition run :: "event list \<Rightarrow> page \<Rightarrow> page" where
  "run es s = foldl (\<lambda>s e. step e s) s es"

text \<open>
  The invariant of the page under its events: at most one invocation is suspended, and
  \<open>loading\<close> is true exactly while one is.
\<close>

definition one_at_a_time :: "page \<Rightarrow> bool" where
  "one_at_a_time s = (length (pending s) \<le> 1 \<and> loading s = (pending s \<noteq> []))"

section \<open>Properties\<close>

subsection \<open>Basic facts about the pieces\<close>

lemma loading_catch_finally: "loading (catch_finally e s) = False"
  by (simp add: catch_finally_def setLoading_def emit_def)

lemma pending_catch_finally: "pending (catch_finally e s) = pending s"
  by (simp add: catch_finally_def setLoading_def emit_def)

lemma log_catch_finally:
  "log (catch_finally e s) =
     log s @ [ConsoleError ''X login error:'' e,
              Alert ''Failed to start X login. Please try again.'',
              SetLoading False]"
  by (simp add: catch_finally_def setLoading_def emit_def)

lemma loading_handleLogin_start: "loading (handleLogin_start s) = True"
  by (simp add: handleLogin_start_def setLoading_def emit_def)

lemma pending_handleLogin_start: "pending (handleLogin_start s) = pending s"
  by (simp add: handleLogin_start_def setLoading_def emit_def)

lemma log_handleLogin_start:
  "log (handleLogin_start s) = log s @ [SetLoading True, Fetch login_request]"
  by (simp add: handleLogin_start_def setLoading_def emit_def)

lemma navigations_append: "navigations (xs @ ys) = navigations xs @ navigations ys"
  by (simp add: navigations_def)

lemma notifications_append: "notifications (xs @ ys) = notifications xs @ notifications ys"
  by (simp add: notifications_def)

lemma loading_after_json: "loading (after_json j h s) = False"
  by (simp add: after_json_def loading_catch_finally setLoading_def emit_def
      split: json_result.split sum.split href_result.split)

lemma pending_after_json: "pending (after_json j h s) = pending s"
  by (simp add: after_json_def pending_catch_finally setLoading_def emit_def
      split: json_result.split sum.split href_result.split)

lemma last_log_after_json: "last (log (after_json j h s)) = SetLoading False"
  by (simp add: after_json_def log_catch_finally setLoading_def emit_def
      split: json_result.split sum.split href_result.split)

lemma after_fetch_Inl:
  "after_fetch r s = Inl s' \<Longrightarrow>
     loading s' = False \<and> pending s' = pending s \<and> last (log s') = SetLoading False"
  by (auto simp: after_fetch_def loading_catch_finally pending_catch_finally log_catch_finally
      split: fetch_result.splits if_splits)

lemma after_fetch_Inr:
  "after_fetch r s = Inr s' \<Longrightarrow>
     loading s' = loading s \<and> pending s' = pending s \<and> log s' = log s @ [ReadJson]"
  by (auto simp: after_fetch_def emit_def split: fetch_result.splits if_splits)

text \<open>The three ways through the first \<open>await\<close>.\<close>

lemma handleLogin_Rejected:
  "handleLogin Rejected j h s = catch_finally FetchRejected (handleLogin_start s)"
  by (simp add: handleLogin_def after_fetch_def)

lemma handleLogin_not_ok:
  "\<not> ok status \<Longrightarrow>
     handleLogin (Resolved status) j h s =
       catch_finally (Error ''Failed to initiate X login'') (handleLogin_start s)"
  by (simp add: handleLogin_def after_fetch_def)

lemma handleLogin_ok:
  "ok status \<Longrightarrow>
     handleLogin (Resolved status) j h s =
       after_json j h (emit ReadJson (handleLogin_start s))"
  by (simp add: handleLogin_def after_fetch_def)

text \<open>Neither the start of the handler nor reading the body navigates or notifies.\<close>

lemma silent_handleLogin_start:
  "navigations (log (handleLogin_start s)) = navigations (log s) \<and>
   notifications (log (handleLogin_start s)) = notifications (log s)"
  by (simp add: log_handleLogin_start navigations_def notifications_def)

lemma silent_ReadJson:
  "navigations (log (emit ReadJson s)) = navigations (log s) \<and>
   notifications (log (emit ReadJson s)) = notifications (log s)"
  by (simp add: emit_def navigations_def notifications_def)

lemma catch_finally_notifies:
  "loading (catch_finally e s) = False \<and>
   navigations (log (catch_finally e s)) = navigations (log s) \<and>
   notifications (log (catch_finally e s)) =
     notifications (log s) @ [''Failed to start X login. Please try again.'']"
  by (simp add: loading_catch_finally log_catch_finally navigations_def notifications_def)

subsection \<open>The redirect\<close>

text \<open>
  C1, as amended. When the status is a success status and the parsed body is an object
  whose member \<open>auth_url\<close> is the string \<open>u\<close>, the handler assigns exactly \<open>u\<close>,
  unmodified, to \<open>window.location.href\<close>. When the browser accepts the string it navigates
  to the URL the string parses to (the string itself when it is an absolute URL in serialised
  form) and nothing is logged or notified; when the string does not parse as a URL the
  setter throws, no navigation occurs and the failure is logged and notified. Either way
  \<open>loading\<close> is reset last.
\<close>

theorem handleLogin_navigates_to_auth_url:
  assumes "ok status" and "map_of (rev members) ''auth_url'' = Some (JStr u)"
  shows "log (handleLogin (Resolved status) (Parsed (JObj members)) h s) =
           log s @ [SetLoading True, Fetch login_request, ReadJson,
                    AssignHref (Some (JStr u))] @
             (case h of
                HrefNavigates target \<Rightarrow> [Navigate target]
              | HrefThrows \<Rightarrow>
                  [ConsoleError ''X login error:'' HrefSyntaxError,
                   Alert ''Failed to start X login. Please try again.'']) @
             [SetLoading False] \<and>
         assignments (log (handleLogin (Resolved status) (Parsed (JObj members)) h s)) =
           assignments (log s) @ [Some (JStr u)] \<and>
         navigations (log (handleLogin (Resolved status) (Parsed (JObj members)) h s)) =
           navigations (log s) @ (case h of HrefNavigates target \<Rightarrow> [target] | HrefThrows \<Rightarrow> [])"
  using assms
  by (simp add: handleLogin_def after_fetch_def after_json_def handleLogin_start_def
      catch_finally_def setLoading_def emit_def navigations_def assignments_def
      split: href_result.split)

text \<open>
  The example of the specification: status 200 and the provider's URL, an absolute URL
  that the browser takes as it is.
\<close>

theorem handleLogin_navigates_to_auth_url_witness:
  "ok 200 \<and>
   map_of (rev [(''auth_url'', JStr ''https://provider.example/authorize?x=1'')]) ''auth_url'' =
     Some (JStr ''https://provider.example/authorize?x=1'') \<and>
   assignments (log (handleLogin (Resolved 200)
       (Parsed (JObj [(''auth_url'', JStr ''https://provider.example/authorize?x=1'')]))
       (HrefNavigates ''https://provider.example/authorize?x=1'') AuthPage_init)) =
     [Some (JStr ''https://provider.example/authorize?x=1'')] \<and>
   navigations (log (handleLogin (Resolved 200)
       (Parsed (JObj [(''auth_url'', JStr ''https://provider.example/authorize?x=1'')]))
       (HrefNavigates ''https://provider.example/authorize?x=1'') AuthPage_init)) =
     [''https://provider.example/authorize?x=1'']"
  using handleLogin_navigates_to_auth_url
    [of 200 "[(''auth_url'', JStr ''https://provider.example/authorize?x=1'')]"
        "''https://provider.example/authorize?x=1''"
        "HrefNavigates ''https://provider.example/authorize?x=1''" AuthPage_init]
  by (simp add: ok_def AuthPage_init_def navigations_def assignments_def)

text \<open>
  C1 as stated fails at status 200 with the body \<open>{"auth_url": "http://"}\<close>: the string
  is no URL, the setter throws, and instead of a navigation to that string there is none
  and the alert is shown.
\<close>

theorem handleLogin_navigates_to_auth_url_counterexample:
  "\<not> (navigations (log (handleLogin (Resolved 200)
         (Parsed (JObj [(''auth_url'', JStr ''http://'')])) HrefThrows AuthPage_init)) =
       [''http://'']) \<and>
   notifications (log (handleLogin (Resolved 200)
         (Parsed (JObj [(''auth_url'', JStr ''http://'')])) HrefThrows AuthPage_init)) =
       [''Failed to start X login. Please try again.'']"
  by (simp add: handleLogin_def after_fetch_def after_json_def handleLogin_start_def
      catch_finally_def setLoading_def emit_def navigations_def notifications_def
      ok_def AuthPage_init_def)

subsection \<open>The reset of \<open>loading\<close>\<close>

text \<open>
  C2. However the request, the body and the assignment settle, the handler ends with
  \<open>loading\<close> false, and the call that resets it is the last thing the handler does: the
  \<open>finally\<close> block runs on every path, the successful one included.
\<close>

theorem handleLogin_resets_loading:
  "loading (handleLogin r j h s) = False \<and>
   last (log (handleLogin r j h s)) = SetLoading False"
  by (auto simp: handleLogin_def loading_after_json last_log_after_json
      split: sum.split dest: after_fetch_Inl)

subsection \<open>A success status without \<open>auth_url\<close>\<close>

text \<open>
  C3. The claim asks that a success status with the body \<open>{}\<close> lead to no navigation and
  to the handling of a failure. The handler does not do so: \<open>data.auth_url\<close> is
  \<open>undefined\<close>, nothing throws, the handler assigns \<open>undefined\<close> to
  \<open>window.location.href\<close>, and the browser, which reads it as the relative URL
  \<open>undefined\<close>, navigates (to whatever \<open>target\<close> that resolves to). No error is logged and
  no alert is shown, against the comment on line 26 and unlike a body that is \<open>null\<close>.
\<close>

theorem handleLogin_missing_auth_url:
  "log (handleLogin (Resolved 200) (Parsed (JObj [])) (HrefNavigates target) AuthPage_init) =
     [SetLoading True, Fetch login_request, ReadJson, AssignHref None, Navigate target,
      SetLoading False] \<and>
   navigations
     (log (handleLogin (Resolved 200) (Parsed (JObj [])) (HrefNavigates target) AuthPage_init)) =
     [target] \<and>
   notifications
     (log (handleLogin (Resolved 200) (Parsed (JObj [])) (HrefNavigates target) AuthPage_init)) =
     []"
  by (simp add: handleLogin_def after_fetch_def after_json_def handleLogin_start_def
      setLoading_def emit_def navigations_def notifications_def ok_def AuthPage_init_def)

subsection \<open>A non-success status\<close>

text \<open>
  C5. For a status outside 200 to 299 the handler throws before \<open>response.json()\<close> is
  called: whatever the body holds, the log gains the request, the console error, the alert
  and the reset, with no read of the body and no assignment to \<open>window.location.href\<close>.
\<close>

theorem handleLogin_non_success_status:
  assumes "\<not> ok status"
  shows "log (handleLogin (Resolved status) j h s) =
           log s @ [SetLoading True, Fetch login_request,
                    ConsoleError ''X login error:'' (Error ''Failed to initiate X login''),
                    Alert ''Failed to start X login. Please try again.'',
                    SetLoading False] \<and>
         navigations (log (handleLogin (Resolved status) j h s)) = navigations (log s) \<and>
         notifications (log (handleLogin (Resolved status) j h s)) =
           notifications (log s) @ [''Failed to start X login. Please try again.'']"
  using assms
  by (simp add: handleLogin_def after_fetch_def handleLogin_start_def catch_finally_def
      setLoading_def emit_def navigations_def notifications_def)

text \<open>Status 500, even with a well-formed success payload in the body.\<close>

theorem handleLogin_non_success_status_witness:
  "\<not> ok 500 \<and>
   navigations (log (handleLogin (Resolved 500)
       (Parsed (JObj [(''auth_url'', JStr ''https://provider.example/authorize?x=1'')]))
       (HrefNavigates ''https://provider.example/authorize?x=1'') AuthPage_init)) = [] \<and>
   notifications (log (handleLogin (Resolved 500)
       (Parsed (JObj [(''auth_url'', JStr ''https://provider.example/authorize?x=1'')]))
       (HrefNavigates ''https://provider.example/authorize?x=1'') AuthPage_init)) =
     [''Failed to start X login. Please try again.'']"
  using handleLogin_non_success_status
    [of 500 "Parsed (JObj [(''auth_url'', JStr ''https://provider.example/authorize?x=1'')])"
        "HrefNavigates ''https://provider.example/authorize?x=1''" AuthPage_init]
  by (simp add: ok_def AuthPage_init_def navigations_def notifications_def)

subsection \<open>The start of the handler\<close>

text \<open>
  C6. Every invocation first calls \<open>setLoading(true)\<close> and then \<open>fetch\<close>, and these two
  are the first effects of the whole handler however it goes on. The request is a POST to
  \<open>/api/v1/auth/x/login\<close> with the single header \<open>Content-Type: application/json\<close> and no
  body given, so the body sent is empty.
\<close>

theorem handleLogin_start_order:
  "log (handleLogin_start s) = log s @ [SetLoading True, Fetch login_request] \<and>
   loading (handleLogin_start s) \<and>
   (\<exists>rest. log (handleLogin r j h s) = log s @ [SetLoading True, Fetch login_request] @ rest) \<and>
   url login_request = ''/api/v1/auth/x/login'' \<and>
   http_method login_request = ''POST'' \<and>
   headers login_request = [(''Content-Type'', ''application/json'')] \<and>
   body login_request = None"
  by (auto simp: handleLogin_def after_fetch_def after_json_def handleLogin_start_def
      catch_finally_def setLoading_def emit_def login_request_def
      split: fetch_result.split json_result.split sum.split href_result.split)

subsection \<open>The rendered control\<close>

text \<open>
  C7. The control is labelled \<open>Connecting...\<close> and disabled exactly when \<open>loading\<close> is
  true (the Pending state), and labelled \<open>Login with X\<close> and enabled when it is false.
\<close>

theorem render_reflects_loading:
  "label (control (render s)) = (if loading s then ''Connecting...'' else ''Login with X'') \<and>
   disabled (control (render s)) = loading s"
  by (simp add: render_def)

subsection \<open>Failures\<close>

text \<open>
  Whatever reaches the \<open>catch\<close> block: a rejected request, a status that is no success
  status, a body that cannot be read as JSON, a body that is \<open>null\<close>, or a value that the
  setter of \<open>window.location.href\<close> rejects.
\<close>

lemma handleLogin_caught:
  assumes "case r of Rejected \<Rightarrow> True
           | Resolved status \<Rightarrow>
               \<not> ok status \<or> j = BodyRejected \<or> j = Parsed JNull \<or> h = HrefThrows"
  shows "\<exists>e s0. handleLogin r j h s = catch_finally e s0 \<and>
          navigations (log s0) = navigations (log s) \<and>
          notifications (log s0) = notifications (log s)"
proof (cases r)
  case Rejected
  then show ?thesis
    using handleLogin_Rejected silent_handleLogin_start by blast
next
  case (Resolved status)
  show ?thesis
  proof (cases "ok status")
    case False
    with Resolved show ?thesis
      using handleLogin_not_ok silent_handleLogin_start by blast
  next
    case True
    let ?s1 = "emit ReadJson (handleLogin_start s)"
    have s1: "navigations (log ?s1) = navigations (log s)"
      "notifications (log ?s1) = notifications (log s)"
      using silent_ReadJson silent_handleLogin_start by simp_all
    have run: "handleLogin r j h s = after_json j h ?s1"
      using True Resolved by (simp add: handleLogin_ok)
    from Resolved True assms
    have cases: "j = BodyRejected \<or> j = Parsed JNull \<or> h = HrefThrows"
      by simp
    show ?thesis
    proof (cases j)
      case BodyRejected
      then have "handleLogin r j h s = catch_finally JsonRejected ?s1"
        using run by (simp add: after_json_def)
      with s1 show ?thesis by blast
    next
      case (Parsed data)
      show ?thesis
      proof (cases "auth_url data")
        case (Inl e)
        then have "handleLogin r j h s = catch_finally e ?s1"
          using run Parsed by (simp add: after_json_def)
        with s1 show ?thesis by blast
      next
        case (Inr v)
        then have "data \<noteq> JNull"
          by auto
        with cases Parsed have h: "h = HrefThrows"
          by simp
        let ?s2 = "emit (AssignHref v) ?s1"
        have "handleLogin r j h s = catch_finally HrefSyntaxError ?s2"
          using run Parsed Inr h by (simp add: after_json_def)
        moreover have "navigations (log ?s2) = navigations (log s)"
          "notifications (log ?s2) = notifications (log s)"
          using s1 by (simp_all add: emit_def navigations_def notifications_def)
        ultimately show ?thesis by blast
      qed
    qed
  qed
qed

text \<open>
  C8, as amended. After any failure the handler detects (the request is rejected, the status
  is not a success status, the body cannot be read as JSON, the body is \<open>null\<close>, or the
  setter of \<open>window.location.href\<close> throws on the value assigned), \<open>loading\<close> is set back
  to false, the value it has initially: the component keeps a boolean and has no separate
  failed value. The alert is shown, no navigation occurs, and the control is rendered
  enabled.
\<close>

theorem handleLogin_failure:
  assumes "case r of Rejected \<Rightarrow> True
           | Resolved status \<Rightarrow>
               \<not> ok status \<or> j = BodyRejected \<or> j = Parsed JNull \<or> h = HrefThrows"
  shows "loading (handleLogin r j h s) = loading AuthPage_init \<and>
         notifications (log (handleLogin r j h s)) =
           notifications (log s) @ [''Failed to start X login. Please try again.''] \<and>
         navigations (log (handleLogin r j h s)) = navigations (log s) \<and>
         \<not> disabled (control (render (handleLogin r j h s)))"
proof -
  from handleLogin_caught [OF assms]
  obtain e s0 where h: "handleLogin r j h s = catch_finally e s0"
    and s0: "navigations (log s0) = navigations (log s)"
      "notifications (log s0) = notifications (log s)"
    by blast
  show ?thesis
    unfolding h using s0
    by (simp add: catch_finally_notifies render_def AuthPage_init_def)
qed

text \<open>
  Status 200 with the body \<open>{"auth_url": "http://"}\<close>, which the setter rejects.
\<close>

theorem handleLogin_failure_witness:
  "(case Resolved 200 of Rejected \<Rightarrow> True
    | Resolved status \<Rightarrow>
        \<not> ok status \<or> Parsed (JObj [(''auth_url'', JStr ''http://'')]) = BodyRejected \<or>
        Parsed (JObj [(''auth_url'', JStr ''http://'')]) = Parsed JNull \<or>
        HrefThrows = HrefThrows) \<and>
   loading (handleLogin (Resolved 200) (Parsed (JObj [(''auth_url'', JStr ''http://'')]))
       HrefThrows AuthPage_init) = False \<and>
   notifications (log (handleLogin (Resolved 200)
       (Parsed (JObj [(''auth_url'', JStr ''http://'')])) HrefThrows AuthPage_init)) =
     [''Failed to start X login. Please try again.''] \<and>
   navigations (log (handleLogin (Resolved 200)
       (Parsed (JObj [(''auth_url'', JStr ''http://'')])) HrefThrows AuthPage_init)) = [] \<and>
   \<not> disabled (control (render (handleLogin (Resolved 200)
       (Parsed (JObj [(''auth_url'', JStr ''http://'')])) HrefThrows AuthPage_init)))"
  using handleLogin_failure
    [where r = "Resolved 200" and j = "Parsed (JObj [(''auth_url'', JStr ''http://'')])"
       and h = HrefThrows and s = AuthPage_init]
  by (simp add: AuthPage_init_def notifications_def navigations_def)

text \<open>
  C8 as stated fails after a rejected request: the state is then not a value distinct from
  the initial one.
\<close>

theorem failed_state_counterexample:
  "\<not> (loading (handleLogin Rejected BodyRejected HrefThrows AuthPage_init) \<noteq>
       loading AuthPage_init)"
  by (simp add: handleLogin_def after_fetch_def handleLogin_start_def
      catch_finally_def setLoading_def emit_def AuthPage_init_def)

text \<open>
  The list of failures above is complete: in every other case the handler shows no alert.
\<close>

lemma handleLogin_silent_otherwise:
  assumes "\<not> (case r of Rejected \<Rightarrow> True
           | Resolved status \<Rightarrow>
               \<not> ok status \<or> j = BodyRejected \<or> j = Parsed JNull \<or> h = HrefThrows)"
  shows "notifications (log (handleLogin r j h s)) = notifications (log s)"
proof -
  from assms obtain status data target
    where r: "r = Resolved status" "ok status" and j: "j = Parsed data" "data \<noteq> JNull"
      and h: "h = HrefNavigates target"
    by (cases r; cases j; cases h) auto
  from j(2) obtain v where v: "auth_url data = Inr v"
    by (cases data) auto
  show ?thesis
    using r j(1) h v
    by (simp add: handleLogin_def after_fetch_def after_json_def handleLogin_start_def
        setLoading_def emit_def notifications_def)
qed

subsection \<open>The stub\<close>

text \<open>
  C9. An activation of the stub appends one console line and nothing else; after any number
  of activations the log has gained only such lines, so no request was sent, nothing was
  assigned to \<open>window.location.href\<close> and no state was set. Its control is rendered
  enabled.
\<close>

theorem stub_only_logs:
  "handleLogin_stub lg = lg @ [ConsoleLog ''Login with X clicked''] \<and>
   (handleLogin_stub ^^ n) lg = lg @ replicate n (ConsoleLog ''Login with X clicked'') \<and>
   requests ((handleLogin_stub ^^ n) lg) = requests lg \<and>
   navigations ((handleLogin_stub ^^ n) lg) = navigations lg \<and>
   \<not> disabled (control render_stub)"
proof -
  have iter: "(handleLogin_stub ^^ n) lg = lg @ replicate n (ConsoleLog ''Login with X clicked'')"
  proof (induction n)
    case 0
    show ?case by simp
  next
    case (Suc n)
    then show ?case
      by (simp add: handleLogin_stub_def flip: replicate_append_same)
  qed
  show ?thesis
    by (simp add: iter handleLogin_stub_def render_stub_def requests_def navigations_def)
qed

subsection \<open>One request at a time\<close>

lemma run_snoc: "run (es @ [e]) s = step e (run es s)"
  by (simp add: run_def)

lemma one_at_a_time_step:
  assumes "one_at_a_time s"
  shows "one_at_a_time (step e s)"
proof (cases e)
  case Click
  with assms show ?thesis
    by (simp add: one_at_a_time_def Button_click_def render_def suspend_def
        loading_handleLogin_start pending_handleLogin_start)
next
  case (FetchSettled i r)
  show ?thesis
  proof (cases "i < length (pending s) \<and> pending s ! i = AwaitFetch")
    case False
    with FetchSettled assms show ?thesis by auto
  next
    case True
    with assms have i: "i = 0" and p: "pending s = [AwaitFetch]" and l: "loading s"
      by (auto simp: one_at_a_time_def length_Suc_conv le_Suc_eq)
    show ?thesis
    proof (cases "after_fetch r s")
      case (Inl s')
      with FetchSettled True i p after_fetch_Inl [OF Inl] show ?thesis
        by (simp add: one_at_a_time_def remove_nth_def)
    next
      case (Inr s')
      with FetchSettled True i p l after_fetch_Inr [OF Inr] show ?thesis
        by (simp add: one_at_a_time_def)
    qed
  qed
next
  case (JsonSettled i j h)
  show ?thesis
  proof (cases "i < length (pending s) \<and> pending s ! i = AwaitJson")
    case False
    with JsonSettled assms show ?thesis by auto
  next
    case True
    with assms have "i = 0" "pending s = [AwaitJson]"
      by (auto simp: one_at_a_time_def length_Suc_conv le_Suc_eq)
    with JsonSettled True show ?thesis
      by (simp add: one_at_a_time_def remove_nth_def loading_after_json)
  qed
qed

lemma one_at_a_time_run: "one_at_a_time (run es AuthPage_init)"
proof (induction es rule: rev_induct)
  case Nil
  show ?case by (simp add: run_def one_at_a_time_def AuthPage_init_def)
next
  case (snoc e es)
  then show ?case by (simp add: run_snoc one_at_a_time_step)
qed

text \<open>
  C4. An activation of the control while \<open>loading\<close> is true changes nothing: no request
  is sent and no invocation starts. Hence, after any sequence of activations and of
  settling promises from the initial page, at most one invocation of the handler (and so at
  most one request) is under way, and \<open>loading\<close> is true exactly while one is.
\<close>

theorem click_while_loading_is_noop:
  "(loading s \<longrightarrow> step Click s = s) \<and>
   length (pending (run es AuthPage_init)) \<le> 1 \<and>
   loading (run es AuthPage_init) = (pending (run es AuthPage_init) \<noteq> [])"
  using one_at_a_time_run [of es]
  by (simp add: one_at_a_time_def Button_click_def render_def)

text \<open>A second activation right after the first.\<close>

theorem click_while_loading_is_noop_witness:
  "loading (run [Click] AuthPage_init) \<and>
   step Click (run [Click] AuthPage_init) = run [Click] AuthPage_init \<and>
   length (pending (run [Click, Click] AuthPage_init)) \<le> 1"
  using click_while_loading_is_noop [of "run [Click] AuthPage_init" "[Click, Click]"]
  by (simp add: run_def Button_click_def render_def suspend_def handleLogin_start_def
      setLoading_def emit_def AuthPage_init_def)

subsection \<open>The handler itself has no guard\<close>


end
